theory Spec2Isabelle
  imports Main
begin

section \<open>dynago: a dynamic DNS updater\<close>

text \<open>
  A shallow embedding of the Go packages \<open>utils\<close>, \<open>logger\<close>, \<open>config\<close>, \<open>providers\<close>,
  \<open>providers/cloudflare\<close>, \<open>providers/route53\<close> and \<open>service\<close>.

  Conventions. A Go \<open>error\<close> result is an \<open>error option\<close> (\<open>None\<close> is \<open>nil\<close>). The result
  pair \<open>(string, error)\<close> of an exported function of this repository is a pair, so
  that the string returned beside a non-nil error is visible. What the program does not
  own (the HTTP client, the YAML library, the vendor SDKs, the file system, the case
  mapping of \<open>strings\<close>) is a parameter: a function over a world \<open>'w\<close> that the call may
  change, returning \<open>error + 'a\<close> since the program reads the value only when the error
  is nil.
\<close>

subsection \<open>Errors\<close>

text \<open>
  \<open>errors.New(msg)\<close>, and \<open>fmt.Errorf(prefix + "%w", err)\<close>, which wraps \<open>err\<close>; \<open>Error\<close> is the
  message, as \<open>%v\<close> prints it.
\<close>

datatype error = errors_New string | fmt_Errorf string error

fun Error :: "error \<Rightarrow> string" where
  "Error (errors_New msg) = msg"
| "Error (fmt_Errorf prefix err) = prefix @ Error err"

subsection \<open>Package utils: the IP source client\<close>

text \<open>
  The part of \<open>http.Response\<close> that \<open>GetCurrentIP\<close> reads: the status code, and what
  \<open>io.ReadAll(resp.Body)\<close> gives (the whole body, or a read error).
\<close>

record Response =
  StatusCode :: int
  Body :: "error + string"

definition http_StatusOK :: int where
  "http_StatusOK = 200"

text \<open>\<open>http_Get\<close> is \<open>http.Get\<close>: the request may change the world and may fail.\<close>

definition GetCurrentIP ::
  "(string \<Rightarrow> 'w \<Rightarrow> (error + Response) \<times> 'w) \<Rightarrow> string \<Rightarrow> 'w \<Rightarrow> (string \<times> error option) \<times> 'w"
where
  "GetCurrentIP http_Get ipSource w =
     (case http_Get ipSource w of
        (Inl err, w') \<Rightarrow> (('''', Some err), w')
      | (Inr resp, w') \<Rightarrow>
          if StatusCode resp \<noteq> http_StatusOK
          then (('''', Some (errors_New ''failed to fetch IP: non-200 response'')), w')
          else (case Body resp of
                  Inl err \<Rightarrow> (('''', Some err), w')
                | Inr body \<Rightarrow> ((body, None), w')))"

subsection \<open>Package logger\<close>

text \<open>The four levels of zerolog that the package uses, in zerolog's order.\<close>

datatype Level = DebugLevel | InfoLevel | WarnLevel | ErrorLevel

text \<open>
  Writers: \<open>io.Discard\<close>, an opened file, the console writer on stdout, and
  \<open>io.MultiWriter\<close>. \<open>NoWriter\<close> is the nil writer of the package variables before
  \<open>InitLogger\<close> has run.
\<close>

datatype 'f Writer = NoWriter | Discard | FileWriter 'f | ConsoleWriter | MultiWriter "'f Writer list"

text \<open>The package variables, with zerolog's global level.\<close>

record 'f logger_vars =
  appWriter :: "'f Writer"
  logLevel :: Level
  globalLevel :: Level
  logger_out :: "'f Writer"

definition logger_vars0 :: "'f logger_vars" where
  "logger_vars0 = \<lparr>appWriter = NoWriter, logLevel = DebugLevel, globalLevel = DebugLevel,
     logger_out = NoWriter\<rparr>"

text \<open>The \<open>switch\<close> of \<open>InitLogger\<close> on the lowered level string.\<close>

definition level_of :: "string \<Rightarrow> Level" where
  "level_of lowered =
     (if lowered = ''debug'' then DebugLevel
      else if lowered = ''info'' then InfoLevel
      else if lowered = ''warn'' then WarnLevel
      else if lowered = ''error'' then ErrorLevel
      else InfoLevel)"

text \<open>
  \<open>os_OpenFile\<close> is \<open>os.OpenFile(path, O_APPEND|O_CREATE|O_WRONLY, 0644)\<close> on the file
  system \<open>'w\<close>; \<open>ToLower\<close> is \<open>strings.ToLower\<close>.
\<close>

definition InitLogger ::
  "(string \<Rightarrow> 'w \<Rightarrow> (error + 'f) \<times> 'w) \<Rightarrow> (string \<Rightarrow> string) \<Rightarrow>
   string \<Rightarrow> string \<Rightarrow> 'f logger_vars \<times> 'w \<Rightarrow> error option \<times> 'f logger_vars \<times> 'w"
where
  "InitLogger os_OpenFile ToLower appLogFile level s =
     (let g0 = (fst s)\<lparr>appWriter := Discard\<rparr>;
          opened = (if appLogFile \<noteq> ''''
                    then (case os_OpenFile appLogFile (snd s) of
                            (Inl err, w') \<Rightarrow> (Some err, g0, w')
                          | (Inr appFile, w') \<Rightarrow> (None, g0\<lparr>appWriter := FileWriter appFile\<rparr>, w'))
                    else (None, g0, snd s))
      in case opened of
           (Some err, g1, w1) \<Rightarrow> (Some err, g1, w1)
         | (None, g1, w1) \<Rightarrow>
             (let g2 = g1\<lparr>logLevel := level_of (ToLower level)\<rparr>;
                  g3 = g2\<lparr>globalLevel := logLevel g2\<rparr>;
                  multiWriter = MultiWriter [appWriter g3, ConsoleWriter]
              in (None, g3\<lparr>logger_out := multiWriter\<rparr>, w1)))"

subsection \<open>Package providers/cloudflare\<close>

record CloudflareConfig =
  cf_Enabled :: bool
  cf_APIToken :: string
  cf_ZoneID :: string
  cf_RecordName :: string
  cf_RecordType :: string
  cf_Proxied :: bool

text \<open>The SDK's types, with the fields the provider reads or writes.\<close>

datatype cf_API = cf_API string

record DNSRecord =
  rec_ID :: string
  rec_Type :: string
  rec_Name :: string
  rec_Content :: string

record ListDNSRecordsParams =
  lp_Name :: string
  lp_Type :: string

record UpdateDNSRecordParams =
  up_ID :: string
  up_Type :: string
  up_Name :: string
  up_Content :: string
  up_Proxied :: "bool option"

text \<open>
  The SDK calls: \<open>cf.NewWithAPIToken(token)\<close>, \<open>client.ListDNSRecords(ctx, zone, params)\<close>
  (of its three results the records and the error) and
  \<open>client.UpdateDNSRecord(ctx, zone, params)\<close> (of its two results the error).
\<close>

record 'w cloudflare_sdk =
  NewWithAPIToken :: "string \<Rightarrow> error + cf_API"
  ListDNSRecords :: "cf_API \<Rightarrow> string \<Rightarrow> ListDNSRecordsParams \<Rightarrow> 'w \<Rightarrow> (error + DNSRecord list) \<times> 'w"
  UpdateDNSRecord :: "cf_API \<Rightarrow> string \<Rightarrow> UpdateDNSRecordParams \<Rightarrow> 'w \<Rightarrow> error option \<times> 'w"

record CloudflareProvider =
  cf_Cfg :: CloudflareConfig
  cf_Client :: "cf_API option"

text \<open>\<open>getClient\<close> caches the client in the provider, so every method returns the provider too.\<close>

definition cloudflare_getClient ::
  "'w cloudflare_sdk \<Rightarrow> CloudflareProvider \<Rightarrow> (error + cf_API) \<times> CloudflareProvider"
where
  "cloudflare_getClient sdk c =
     (case cf_Client c of
        Some client \<Rightarrow> (Inr client, c)
      | None \<Rightarrow>
          (case NewWithAPIToken sdk (cf_APIToken (cf_Cfg c)) of
             Inl err \<Rightarrow> (Inl err, c)
           | Inr api \<Rightarrow> (Inr api, c\<lparr>cf_Client := Some api\<rparr>)))"

definition cloudflare_ProviderName :: "CloudflareProvider \<Rightarrow> string" where
  "cloudflare_ProviderName c = ''cloudflare''"

text \<open>The condition of the \<open>for\<close> loops of both methods; the loops return at the first record that meets it.\<close>

definition cf_matches :: "CloudflareConfig \<Rightarrow> DNSRecord \<Rightarrow> bool" where
  "cf_matches cfg record \<longleftrightarrow> rec_Name record = cf_RecordName cfg \<and> rec_Type record = cf_RecordType cfg"

definition cloudflare_GetRecordIP ::
  "'w cloudflare_sdk \<Rightarrow> CloudflareProvider \<Rightarrow> 'w \<Rightarrow> (string \<times> error option) \<times> CloudflareProvider \<times> 'w"
where
  "cloudflare_GetRecordIP sdk c w =
     (case cloudflare_getClient sdk c of
        (Inl err, c') \<Rightarrow> (('''', Some err), c', w)
      | (Inr client, c') \<Rightarrow>
          (let zone = cf_ZoneID (cf_Cfg c')
           in case ListDNSRecords sdk client zone
                     \<lparr>lp_Name = cf_RecordName (cf_Cfg c'), lp_Type = cf_RecordType (cf_Cfg c')\<rparr> w of
                (Inl err, w') \<Rightarrow> (('''', Some err), c', w')
              | (Inr records, w') \<Rightarrow>
                  (case find (cf_matches (cf_Cfg c')) records of
                     Some record \<Rightarrow> ((rec_Content record, None), c', w')
                   | None \<Rightarrow> (('''', Some (errors_New ''record not found'')), c', w'))))"

definition cloudflare_UpdateRecordIP ::
  "'w cloudflare_sdk \<Rightarrow> CloudflareProvider \<Rightarrow> string \<Rightarrow> 'w \<Rightarrow> error option \<times> CloudflareProvider \<times> 'w"
where
  "cloudflare_UpdateRecordIP sdk c ip w =
     (case cloudflare_getClient sdk c of
        (Inl err, c') \<Rightarrow> (Some err, c', w)
      | (Inr client, c') \<Rightarrow>
          (let zone = cf_ZoneID (cf_Cfg c')
           in case ListDNSRecords sdk client zone
                     \<lparr>lp_Name = cf_RecordName (cf_Cfg c'), lp_Type = cf_RecordType (cf_Cfg c')\<rparr> w of
                (Inl err, w') \<Rightarrow> (Some err, c', w')
              | (Inr records, w') \<Rightarrow>
                  (case find (cf_matches (cf_Cfg c')) records of
                     Some record \<Rightarrow>
                       (let edit = \<lparr>up_ID = rec_ID record, up_Type = cf_RecordType (cf_Cfg c'),
                                    up_Name = cf_RecordName (cf_Cfg c'), up_Content = ip,
                                    up_Proxied = Some (cf_Proxied (cf_Cfg c'))\<rparr>
                        in case UpdateDNSRecord sdk client zone edit w' of
                             (err, w'') \<Rightarrow> (err, c', w''))
                   | None \<Rightarrow> (Some (errors_New ''record not found for update''), c', w'))))"

subsection \<open>Package providers/route53\<close>

record Route53Config =
  r53_Enabled :: bool
  r53_AccessKeyID :: string
  r53_SecretAccessKey :: string
  r53_HostedZoneID :: string
  r53_RecordName :: string
  r53_RecordType :: string
  r53_Region :: string

text \<open>
  The SDK's types. An \<open>aws.Config\<close> is known by what \<open>getClient\<close> loads it from (the
  region and the static credentials), a client by its configuration. The \<open>Name\<close> and
  \<open>Value\<close> pointers of a record set that the API returns are set (both are required
  members of the API's response).
\<close>

datatype aws_Config = aws_Config string string string

datatype route53_Client = route53_NewFromConfig aws_Config

record ResourceRecord =
  rr_Value :: string

record ResourceRecordSet =
  rrs_Name :: string
  rrs_Type :: string
  rrs_TTL :: "int option"
  rrs_ResourceRecords :: "ResourceRecord list"

record ListResourceRecordSetsInput =
  li_HostedZoneId :: string
  li_StartRecordName :: string
  li_StartRecordType :: string
  li_MaxItems :: int

datatype ChangeAction = ChangeActionCreate | ChangeActionDelete | ChangeActionUpsert

record Change =
  ch_Action :: ChangeAction
  ch_ResourceRecordSet :: ResourceRecordSet

record ChangeResourceRecordSetsInput =
  ci_HostedZoneId :: string
  ci_Changes :: "Change list"

text \<open>
  The SDK calls: \<open>awsconfig.LoadDefaultConfig\<close> with the region and the static
  credentials, \<open>client.ListResourceRecordSets\<close> (of the response its record sets),
  \<open>client.ChangeResourceRecordSets\<close> (its error), and \<open>strings.EqualFold\<close>.
\<close>

record 'w aws_sdk =
  LoadDefaultConfig :: "string \<Rightarrow> string \<Rightarrow> string \<Rightarrow> 'w \<Rightarrow> (error + aws_Config) \<times> 'w"
  ListResourceRecordSets ::
    "route53_Client \<Rightarrow> ListResourceRecordSetsInput \<Rightarrow> 'w \<Rightarrow> (error + ResourceRecordSet list) \<times> 'w"
  ChangeResourceRecordSets ::
    "route53_Client \<Rightarrow> ChangeResourceRecordSetsInput \<Rightarrow> 'w \<Rightarrow> error option \<times> 'w"
  EqualFold :: "string \<Rightarrow> string \<Rightarrow> bool"

record Route53Provider =
  r53_Cfg :: Route53Config
  r53_Client :: "route53_Client option"

definition route53_getClient ::
  "'w aws_sdk \<Rightarrow> Route53Provider \<Rightarrow> 'w \<Rightarrow> (error + route53_Client) \<times> Route53Provider \<times> 'w"
where
  "route53_getClient sdk r w =
     (case r53_Client r of
        Some client \<Rightarrow> (Inr client, r, w)
      | None \<Rightarrow>
          (case LoadDefaultConfig sdk (r53_Region (r53_Cfg r)) (r53_AccessKeyID (r53_Cfg r))
                  (r53_SecretAccessKey (r53_Cfg r)) w of
             (Inl err, w') \<Rightarrow> (Inl err, r, w')
           | (Inr awsCfg, w') \<Rightarrow>
               (Inr (route53_NewFromConfig awsCfg),
                r\<lparr>r53_Client := Some (route53_NewFromConfig awsCfg)\<rparr>, w')))"

definition route53_ProviderName :: "Route53Provider \<Rightarrow> string" where
  "route53_ProviderName r = ''route53''"

text \<open>
  The \<open>for\<close> loop of \<open>GetRecordIP\<close>: the value of the first record set that has the
  name (with the trailing dot, compared by \<open>EqualFold\<close>) and the type and holds at
  least one resource record.
\<close>

fun r53_scan :: "(string \<Rightarrow> string \<Rightarrow> bool) \<Rightarrow> Route53Config \<Rightarrow> ResourceRecordSet list \<Rightarrow> string option" where
  "r53_scan eqFold cfg [] = None"
| "r53_scan eqFold cfg (record # rest) =
     (if eqFold (rrs_Name record) (r53_RecordName cfg @ ''.'') \<and> rrs_Type record = r53_RecordType cfg
      then (case rrs_ResourceRecords record of
              v # vs \<Rightarrow> Some (rr_Value v)
            | [] \<Rightarrow> r53_scan eqFold cfg rest)
      else r53_scan eqFold cfg rest)"

definition route53_GetRecordIP ::
  "'w aws_sdk \<Rightarrow> Route53Provider \<Rightarrow> 'w \<Rightarrow> (string \<times> error option) \<times> Route53Provider \<times> 'w"
where
  "route53_GetRecordIP sdk r w =
     (case route53_getClient sdk r w of
        (Inl err, r', w1) \<Rightarrow> (('''', Some err), r', w1)
      | (Inr client, r', w1) \<Rightarrow>
          (let input = \<lparr>li_HostedZoneId = r53_HostedZoneID (r53_Cfg r'),
                        li_StartRecordName = r53_RecordName (r53_Cfg r'),
                        li_StartRecordType = r53_RecordType (r53_Cfg r'),
                        li_MaxItems = 1\<rparr>
           in case ListResourceRecordSets sdk client input w1 of
                (Inl err, w2) \<Rightarrow> (('''', Some err), r', w2)
              | (Inr sets, w2) \<Rightarrow>
                  (case r53_scan (EqualFold sdk) (r53_Cfg r') sets of
                     Some v \<Rightarrow> ((v, None), r', w2)
                   | None \<Rightarrow> (('''', Some (errors_New ''record not found'')), r', w2))))"

definition route53_UpdateRecordIP ::
  "'w aws_sdk \<Rightarrow> Route53Provider \<Rightarrow> string \<Rightarrow> 'w \<Rightarrow> error option \<times> Route53Provider \<times> 'w"
where
  "route53_UpdateRecordIP sdk r ip w =
     (case route53_getClient sdk r w of
        (Inl err, r', w1) \<Rightarrow> (Some err, r', w1)
      | (Inr client, r', w1) \<Rightarrow>
          (let input = \<lparr>ci_HostedZoneId = r53_HostedZoneID (r53_Cfg r'),
                        ci_Changes =
                          [\<lparr>ch_Action = ChangeActionUpsert,
                            ch_ResourceRecordSet =
                              \<lparr>rrs_Name = r53_RecordName (r53_Cfg r'),
                               rrs_Type = r53_RecordType (r53_Cfg r'),
                               rrs_TTL = Some 300,
                               rrs_ResourceRecords = [\<lparr>rr_Value = ip\<rparr>]\<rparr>\<rparr>]\<rparr>
           in case ChangeResourceRecordSets sdk client input w1 of
                (err, w2) \<Rightarrow> (err, r', w2)))"

subsection \<open>Package config\<close>

text \<open>
  \<open>Interval\<close> is a \<open>time.Duration\<close> (nanoseconds); \<open>Providers\<close> is the
  \<open>map[string]any\<close> of raw provider settings, a value of type \<open>'raw\<close> each.
\<close>

record 'raw Config =
  Interval :: int
  IPSource :: string
  LogLevel :: string
  Providers :: "string \<rightharpoonup> 'raw"

text \<open>
  The YAML library: \<open>yaml.Marshal\<close> gives the bytes or an error; \<open>yaml.Unmarshal(data, out)\<close>
  writes into the struct behind \<open>out\<close> and returns an error, one function for each
  struct type it is called on.
\<close>

record 'raw yaml_lib =
  Marshal :: "'raw \<Rightarrow> error + string"
  Unmarshal_CloudflareConfig :: "string \<Rightarrow> CloudflareConfig \<Rightarrow> error option \<times> CloudflareConfig"
  Unmarshal_Route53Config :: "string \<Rightarrow> Route53Config \<Rightarrow> error option \<times> Route53Config"

definition ConfigFromMap ::
  "('raw \<Rightarrow> error + string) \<Rightarrow> (string \<Rightarrow> 'cfg \<Rightarrow> error option \<times> 'cfg) \<Rightarrow> 'raw \<Rightarrow> 'cfg \<Rightarrow> error option \<times> 'cfg"
where
  "ConfigFromMap marshal unmarshal m out =
     (case marshal m of
        Inl err \<Rightarrow> (Some err, out)
      | Inr data \<Rightarrow> unmarshal data out)"

text \<open>The constructors \<open>New\<close> of the two provider packages, from the zero value of the settings.\<close>

definition CloudflareConfig0 :: CloudflareConfig where
  "CloudflareConfig0 = \<lparr>cf_Enabled = False, cf_APIToken = '''', cf_ZoneID = '''',
     cf_RecordName = '''', cf_RecordType = '''', cf_Proxied = False\<rparr>"

definition Route53Config0 :: Route53Config where
  "Route53Config0 = \<lparr>r53_Enabled = False, r53_AccessKeyID = '''', r53_SecretAccessKey = '''',
     r53_HostedZoneID = '''', r53_RecordName = '''', r53_RecordType = '''', r53_Region = ''''\<rparr>"

definition cloudflare_New :: "'raw yaml_lib \<Rightarrow> 'raw \<Rightarrow> CloudflareProvider option \<times> error option" where
  "cloudflare_New yaml raw =
     (case ConfigFromMap (Marshal yaml) (Unmarshal_CloudflareConfig yaml) raw CloudflareConfig0 of
        (Some err, cfg) \<Rightarrow> (None, Some err)
      | (None, cfg) \<Rightarrow> (Some \<lparr>cf_Cfg = cfg, cf_Client = None\<rparr>, None))"

definition route53_New :: "'raw yaml_lib \<Rightarrow> 'raw \<Rightarrow> Route53Provider option \<times> error option" where
  "route53_New yaml raw =
     (case ConfigFromMap (Marshal yaml) (Unmarshal_Route53Config yaml) raw Route53Config0 of
        (Some err, cfg) \<Rightarrow> (None, Some err)
      | (None, cfg) \<Rightarrow> (Some \<lparr>r53_Cfg = cfg, r53_Client = None\<rparr>, None))"

subsection \<open>Package providers: the interface and the registry\<close>

text \<open>
  A value of the interface \<open>DNSProvider\<close>: its three methods, over the world \<open>'w\<close> that
  holds whatever the receiver and the vendor keep.
\<close>

record 'w DNSProvider =
  GetRecordIP :: "'w \<Rightarrow> (string \<times> error option) \<times> 'w"
  UpdateRecordIP :: "string \<Rightarrow> 'w \<Rightarrow> error option \<times> 'w"
  ProviderName :: "'w \<Rightarrow> string"

record 'w DNSProviderRegistry =
  reg_Providers :: "'w DNSProvider list"

definition NewDNSProviderRegistry ::
  "'raw Config option \<Rightarrow> 'w DNSProvider list \<Rightarrow> 'w DNSProviderRegistry option \<times> error option"
where
  "NewDNSProviderRegistry cfg providers =
     (if length providers = 0
      then (None, Some (errors_New ''no DNS providers enabled in config''))
      else (Some \<lparr>reg_Providers = providers\<rparr>, None))"

subsection \<open>Package service\<close>

text \<open>
  What a run does is recorded as a trace: every call of the logger (level, format and
  the arguments as \<open>%s\<close> and \<open>%v\<close> print them) and every call that leaves the program,
  with its result, each beside the world in which it was issued. A provider call
  names the position of its receiver in the registry.
\<close>

datatype action =
    Log Level string "string list"
  | CallGetCurrentIP string "string \<times> error option"
  | CallGetRecordIP nat "string \<times> error option"
  | CallUpdateRecordIP nat string "error option"
  | NewTicker int
  | TickerStop

text \<open>The local state of \<open>Start\<close>: the world, the map \<open>lastKnown\<close>, and the trace so far.\<close>

record 'w run =
  world :: 'w
  lastKnown :: "string \<rightharpoonup> string"
  trace :: "('w \<times> action) list"

definition emit :: "action \<Rightarrow> 'w run \<Rightarrow> 'w run" where
  "emit a st = st\<lparr>trace := trace st @ [(world st, a)]\<rparr>"

text \<open>The body of \<open>for _, p := range reg.Providers\<close>, for the provider at position \<open>i\<close>.\<close>

definition update_provider :: "string \<Rightarrow> nat \<Rightarrow> 'w DNSProvider \<Rightarrow> 'w run \<Rightarrow> 'w run" where
  "update_provider currentIP i p st =
     (let providerName = ProviderName p (world st)
      in case GetRecordIP p (world st) of
           ((dnsIP, err), w1) \<Rightarrow>
             (let st1 = (emit (CallGetRecordIP i (dnsIP, err)) st)\<lparr>world := w1\<rparr>
              in case err of
                   Some e \<Rightarrow>
                     emit (Log ErrorLevel ''%s: failed to get DNS record IP: %v'' [providerName, Error e]) st1
                 | None \<Rightarrow>
                     if dnsIP \<noteq> currentIP
                     then (let st2 = emit (Log InfoLevel ''%s: IP mismatch (current: %s, DNS: %s), updating...''
                                             [providerName, currentIP, dnsIP]) st1
                           in case UpdateRecordIP p currentIP (world st2) of
                                (uerr, w2) \<Rightarrow>
                                  (let st3 = (emit (CallUpdateRecordIP i currentIP uerr) st2)\<lparr>world := w2\<rparr>
                                   in case uerr of
                                        Some e \<Rightarrow>
                                          emit (Log ErrorLevel ''%s: failed to update DNS record: %v''
                                                  [providerName, Error e]) st3
                                      | None \<Rightarrow>
                                          emit (Log InfoLevel ''%s: DNS record updated to %s''
                                                  [providerName, currentIP])
                                               (st3\<lparr>lastKnown := (lastKnown st3)(providerName \<mapsto> currentIP)\<rparr>)))
                     else emit (Log DebugLevel ''%s: IP unchanged (%s)'' [providerName, currentIP]) st1))"

text \<open>The \<open>for\<close> loop over the registry, from position \<open>i\<close> on.\<close>

fun update_pass :: "string \<Rightarrow> nat \<Rightarrow> 'w DNSProvider list \<Rightarrow> 'w run \<Rightarrow> 'w run" where
  "update_pass currentIP i [] st = st"
| "update_pass currentIP i (p # ps) st = update_pass currentIP (Suc i) ps (update_provider currentIP i p st)"

text \<open>The branch \<open>case <-ticker.C\<close>: one fetch of the public IP, then the pass, or \<open>continue\<close>.\<close>

definition tick ::
  "(string \<Rightarrow> 'w \<Rightarrow> (error + Response) \<times> 'w) \<Rightarrow> 'w DNSProviderRegistry \<Rightarrow> string \<Rightarrow> 'w run \<Rightarrow> 'w run"
where
  "tick http_Get reg ipSource st =
     (case GetCurrentIP http_Get ipSource (world st) of
        ((currentIP, err), w1) \<Rightarrow>
          (let st1 = (emit (CallGetCurrentIP ipSource (currentIP, err)) st)\<lparr>world := w1\<rparr>
           in case err of
                Some e \<Rightarrow> emit (Log ErrorLevel ''Failed to get current IP: %v'' [Error e]) st1
              | None \<Rightarrow> update_pass currentIP 0 (reg_Providers reg) st1))"

text \<open>
  The \<open>for { select { ... } }\<close> loop. Which branch a \<open>select\<close> takes is the
  environment's choice (the context, the ticker, and the runtime's pick when both are
  ready), so the loop runs on a schedule: the branches taken, in order. At the end of
  the schedule the loop is blocked in \<open>select\<close> and \<open>Start\<close> has not returned.
\<close>

datatype select_case = CtxDone | TickerC

datatype outcome = Blocked | Returned "error option" | Panicked string

fun loop ::
  "(string \<Rightarrow> 'w \<Rightarrow> (error + Response) \<times> 'w) \<Rightarrow> 'w DNSProviderRegistry \<Rightarrow> string \<Rightarrow>
   select_case list \<Rightarrow> 'w run \<Rightarrow> outcome \<times> 'w run"
where
  "loop http_Get reg ipSource [] st = (Blocked, st)"
| "loop http_Get reg ipSource (CtxDone # schedule) st =
     (Returned None, emit (Log InfoLevel ''DNSUpdateService stopped'' []) st)"
| "loop http_Get reg ipSource (TickerC # schedule) st =
     loop http_Get reg ipSource schedule (tick http_Get reg ipSource st)"

text \<open>
  The provider objects that \<open>Start\<close> allocates are reached through the interface values in
  the registry and change (the cached client), so they live in a store: one cell for
  each of the two objects, beside the world \<open>'v\<close> outside the process.
\<close>

record 'v store =
  cf_cell :: CloudflareProvider
  r53_cell :: Route53Provider
  ext :: 'v

definition cloudflare_DNSProvider :: "'v cloudflare_sdk \<Rightarrow> 'v store DNSProvider" where
  "cloudflare_DNSProvider sdk =
     \<lparr>GetRecordIP = (\<lambda>h. case cloudflare_GetRecordIP sdk (cf_cell h) (ext h) of
                             (res, c', v') \<Rightarrow> (res, h\<lparr>cf_cell := c', ext := v'\<rparr>)),
      UpdateRecordIP = (\<lambda>ip h. case cloudflare_UpdateRecordIP sdk (cf_cell h) ip (ext h) of
                                   (err, c', v') \<Rightarrow> (err, h\<lparr>cf_cell := c', ext := v'\<rparr>)),
      ProviderName = (\<lambda>h. cloudflare_ProviderName (cf_cell h))\<rparr>"

definition route53_DNSProvider :: "'v aws_sdk \<Rightarrow> 'v store DNSProvider" where
  "route53_DNSProvider sdk =
     \<lparr>GetRecordIP = (\<lambda>h. case route53_GetRecordIP sdk (r53_cell h) (ext h) of
                             (res, r', v') \<Rightarrow> (res, h\<lparr>r53_cell := r', ext := v'\<rparr>)),
      UpdateRecordIP = (\<lambda>ip h. case route53_UpdateRecordIP sdk (r53_cell h) ip (ext h) of
                                   (err, r', v') \<Rightarrow> (err, h\<lparr>r53_cell := r', ext := v'\<rparr>)),
      ProviderName = (\<lambda>h. route53_ProviderName (r53_cell h))\<rparr>"

text \<open>Everything \<open>Start\<close> calls outside the repository.\<close>

record ('raw, 'v) platform =
  yaml :: "'raw yaml_lib"
  cloudflare :: "'v cloudflare_sdk"
  aws :: "'v aws_sdk"
  http_client :: "string \<Rightarrow> 'v \<Rightarrow> (error + Response) \<times> 'v"

definition store_Get ::
  "(string \<Rightarrow> 'v \<Rightarrow> (error + Response) \<times> 'v) \<Rightarrow> string \<Rightarrow> 'v store \<Rightarrow> (error + Response) \<times> 'v store"
where
  "store_Get get url h = (case get url (ext h) of (res, v') \<Rightarrow> (res, h\<lparr>ext := v'\<rparr>))"

text \<open>
  The two \<open>if raw, ok := s.cfg.Providers[...]\<close> blocks of \<open>Start\<close>: the list
  \<open>providersList\<close>, and the store with the objects that were appended.
\<close>

definition build_providers ::
  "('raw, 'v) platform \<Rightarrow> 'raw Config \<Rightarrow> 'v store \<Rightarrow> 'v store DNSProvider list \<times> 'v store"
where
  "build_providers env cfg h =
     (let providersList = [];
          (providersList, h) =
            (case Providers cfg ''cloudflare'' of
               Some raw \<Rightarrow>
                 (case cloudflare_New (yaml env) raw of
                    (Some cf, None) \<Rightarrow>
                      if cf_Enabled (cf_Cfg cf)
                      then (providersList @ [cloudflare_DNSProvider (cloudflare env)], h\<lparr>cf_cell := cf\<rparr>)
                      else (providersList, h)
                  | (cf, err) \<Rightarrow> (providersList, h))
             | None \<Rightarrow> (providersList, h));
          (providersList, h) =
            (case Providers cfg ''route53'' of
               Some raw \<Rightarrow>
                 (case route53_New (yaml env) raw of
                    (Some r53, None) \<Rightarrow>
                      if r53_Enabled (r53_Cfg r53)
                      then (providersList @ [route53_DNSProvider (aws env)], h\<lparr>r53_cell := r53\<rparr>)
                      else (providersList, h)
                  | (r53, err) \<Rightarrow> (providersList, h))
             | None \<Rightarrow> (providersList, h))
      in (providersList, h))"

definition run0 :: "'v \<Rightarrow> 'v store run" where
  "run0 v = \<lparr>world = \<lparr>cf_cell = \<lparr>cf_Cfg = CloudflareConfig0, cf_Client = None\<rparr>,
                       r53_cell = \<lparr>r53_Cfg = Route53Config0, r53_Client = None\<rparr>, ext = v\<rparr>,
             lastKnown = Map.empty, trace = []\<rparr>"

text \<open>
  \<open>Start\<close>, on a service with configuration \<open>cfg\<close> (\<open>None\<close> is the nil pointer), under a
  schedule for its loop. \<open>time.NewTicker\<close> panics on an interval that is not positive;
  the deferred \<open>ticker.Stop()\<close> runs when the loop returns.
\<close>

definition Start ::
  "('raw, 'v) platform \<Rightarrow> 'raw Config option \<Rightarrow> select_case list \<Rightarrow> 'v \<Rightarrow> outcome \<times> 'v store run"
where
  "Start env cfg schedule v =
     (case cfg of
        None \<Rightarrow> (Returned None, run0 v)
      | Some c \<Rightarrow>
          (let st1 = emit (Log InfoLevel ''DNSUpdateService starting... '' []) (run0 v);
               (providersList, h) = build_providers env c (world st1);
               st2 = st1\<lparr>world := h\<rparr>
           in case NewDNSProviderRegistry cfg providersList of
                (reg, Some err) \<Rightarrow>
                  (Returned (Some (fmt_Errorf ''failed to create DNS provider registry: '' err)),
                   emit (Log ErrorLevel ''No DNS providers enabled: %v'' [Error err]) st2)
              | (None, None) \<Rightarrow> (Panicked ''nil pointer dereference'', st2)
              | (Some reg, None) \<Rightarrow>
                  if Interval c \<le> 0
                  then (Panicked ''non-positive interval for NewTicker'', st2)
                  else (case loop (store_Get (http_client env)) reg (IPSource c) schedule
                               (emit (NewTicker (Interval c)) st2) of
                          (Blocked, st3) \<Rightarrow> (Blocked, st3)
                        | (out, st3) \<Rightarrow> (out, emit TickerStop st3))))"

subsection \<open>Reading a trace\<close>

text \<open>
  The actions of a run, the results of the \<open>GetRecordIP\<close> calls on the provider at position
  \<open>i\<close>, the arguments of the \<open>UpdateRecordIP\<close> calls on it, and the results of the fetches,
  each in the order of the calls. \<open>need X r\<close> is the update that a read with result \<open>r\<close> asks
  for when the public IP is \<open>X\<close>. \<open>tick_actions\<close> are the actions of one tick alone.
\<close>

definition acts :: "'w run \<Rightarrow> action list" where
  "acts st = map snd (trace st)"

fun get_results :: "nat \<Rightarrow> action list \<Rightarrow> (string \<times> error option) list" where
  "get_results i [] = []"
| "get_results i (CallGetRecordIP j r # as) = (if j = i then r # get_results i as else get_results i as)"
| "get_results i (a # as) = get_results i as"

fun update_args :: "nat \<Rightarrow> action list \<Rightarrow> string list" where
  "update_args i [] = []"
| "update_args i (CallUpdateRecordIP j ip err # as) = (if j = i then ip # update_args i as else update_args i as)"
| "update_args i (a # as) = update_args i as"

fun fetches :: "action list \<Rightarrow> (string \<times> error option) list" where
  "fetches [] = []"
| "fetches (CallGetCurrentIP src r # as) = r # fetches as"
| "fetches (a # as) = fetches as"

fun need :: "string \<Rightarrow> string \<times> error option \<Rightarrow> string list" where
  "need X (Y, err) = (if err = None \<and> Y \<noteq> X then [X] else [])"

definition tick_actions ::
  "(string \<Rightarrow> 'w \<Rightarrow> (error + Response) \<times> 'w) \<Rightarrow> 'w DNSProviderRegistry \<Rightarrow> string \<Rightarrow> 'w run \<Rightarrow> action list"
where
  "tick_actions g reg src st = acts (tick g reg src (st\<lparr>trace := []\<rparr>))"

subsection \<open>What a configuration enables\<close>

text \<open>
  A provider is enabled by a configuration when \<open>Providers\<close> has its key, the raw settings
  decode (\<open>New\<close> returns no error) and the decoded \<open>Enabled\<close> flag is set: the condition
  \<open>err == nil && p.Cfg.Enabled\<close> of \<open>Start\<close>. \<open>starting v\<close> is the state of \<open>Start\<close> after its
  first log line, and \<open>no_providers\<close> the error of an empty registry.
\<close>

definition cloudflare_enabled :: "('raw, 'v) platform \<Rightarrow> 'raw Config \<Rightarrow> bool" where
  "cloudflare_enabled env cfg \<longleftrightarrow>
     (case Providers cfg ''cloudflare'' of
        None \<Rightarrow> False
      | Some raw \<Rightarrow>
          (case cloudflare_New (yaml env) raw of
             (Some cf, None) \<Rightarrow> cf_Enabled (cf_Cfg cf)
           | (cf, err) \<Rightarrow> False))"

definition route53_enabled :: "('raw, 'v) platform \<Rightarrow> 'raw Config \<Rightarrow> bool" where
  "route53_enabled env cfg \<longleftrightarrow>
     (case Providers cfg ''route53'' of
        None \<Rightarrow> False
      | Some raw \<Rightarrow>
          (case route53_New (yaml env) raw of
             (Some r53, None) \<Rightarrow> r53_Enabled (r53_Cfg r53)
           | (r53, err) \<Rightarrow> False))"

definition starting :: "'v \<Rightarrow> 'v store run" where
  "starting v = emit (Log InfoLevel ''DNSUpdateService starting... '' []) (run0 v)"

definition no_providers :: error where
  "no_providers = errors_New ''no DNS providers enabled in config''"

subsection \<open>Test doubles\<close>

text \<open>An ASCII stand-in for \<open>strings.ToLower\<close> and a file system with one unwritable path, for concrete runs.\<close>

definition ascii_lower :: "string \<Rightarrow> string" where
  "ascii_lower s =
     map (\<lambda>c. if (65::nat) \<le> of_char c \<and> of_char c \<le> (90::nat)
              then char_of (of_char c + (32::nat)) else c) s"

definition stub_OpenFile :: "string \<Rightarrow> string list \<Rightarrow> (error + string) \<times> string list" where
  "stub_OpenFile path fs =
     (if path = ''/proc/nope'' then (Inl (errors_New ''open /proc/nope: permission denied''), fs)
      else (Inr path, if path \<in> set fs then fs else fs @ [path]))"

definition stub_Get :: "int \<Rightarrow> string \<Rightarrow> string \<Rightarrow> nat \<Rightarrow> (error + Response) \<times> nat" where
  "stub_Get code body url n = (Inr \<lparr>StatusCode = code, Body = Inr body\<rparr>, Suc n)"

text \<open>
  A Cloudflare zone and a Route53 hosted zone held in memory, for concrete runs: the
  listing filters by name and type, an update needs the record's id, an UPSERT
  replaces the record set of that name and type or creates it.
\<close>

definition stub_cloudflare :: "DNSRecord list cloudflare_sdk" where
  "stub_cloudflare =
     \<lparr>NewWithAPIToken = (\<lambda>token. if token = '''' then Inl (errors_New ''invalid credentials'')
                                  else Inr (cf_API token)),
      ListDNSRecords = (\<lambda>client zone params w.
         (Inr (filter (\<lambda>r. rec_Name r = lp_Name params \<and> rec_Type r = lp_Type params) w), w)),
      UpdateDNSRecord = (\<lambda>client zone edit w.
         if up_ID edit \<in> set (map rec_ID w)
         then (None, map (\<lambda>r. if rec_ID r = up_ID edit then r\<lparr>rec_Content := up_Content edit\<rparr> else r) w)
         else (Some (errors_New ''record does not exist''), w))\<rparr>"

definition stub_upsert :: "ResourceRecordSet \<Rightarrow> ResourceRecordSet list \<Rightarrow> ResourceRecordSet list" where
  "stub_upsert s w =
     (if \<exists>r \<in> set w. rrs_Name r = rrs_Name s \<and> rrs_Type r = rrs_Type s
      then map (\<lambda>r. if rrs_Name r = rrs_Name s \<and> rrs_Type r = rrs_Type s then s else r) w
      else w @ [s])"

definition stub_aws :: "ResourceRecordSet list aws_sdk" where
  "stub_aws =
     \<lparr>LoadDefaultConfig = (\<lambda>region keyId secret w. (Inr (aws_Config region keyId secret), w)),
      ListResourceRecordSets = (\<lambda>client input w. (Inr (take (nat (li_MaxItems input)) w), w)),
      ChangeResourceRecordSets = (\<lambda>client input w.
         (None, fold (\<lambda>ch. stub_upsert (ch_ResourceRecordSet ch)) (ci_Changes input) w)),
      EqualFold = (\<lambda>a b. ascii_lower a = ascii_lower b)\<rparr>"

definition sample_cf :: CloudflareProvider where
  "sample_cf = \<lparr>cf_Cfg = \<lparr>cf_Enabled = True, cf_APIToken = ''token'', cf_ZoneID = ''zone'',
                          cf_RecordName = ''home.example.com'', cf_RecordType = ''A'',
                          cf_Proxied = False\<rparr>,
                cf_Client = None\<rparr>"

definition sample_r53 :: Route53Provider where
  "sample_r53 = \<lparr>r53_Cfg = \<lparr>r53_Enabled = True, r53_AccessKeyID = ''id'', r53_SecretAccessKey = ''secret'',
                            r53_HostedZoneID = ''Z1'', r53_RecordName = ''home.example.com'',
                            r53_RecordType = ''A'', r53_Region = ''us-east-1''\<rparr>,
                 r53_Client = None\<rparr>"

definition sample_cf_no_token :: CloudflareProvider where
  "sample_cf_no_token = sample_cf\<lparr>cf_Cfg := (cf_Cfg sample_cf)\<lparr>cf_APIToken := ''''\<rparr>\<rparr>"

definition stub_aws_offline :: "ResourceRecordSet list aws_sdk" where
  "stub_aws_offline =
     stub_aws\<lparr>LoadDefaultConfig := (\<lambda>region keyId secret w. (Inl (errors_New ''failed to load config''), w))\<rparr>"

definition sample_zone :: "DNSRecord list" where
  "sample_zone = [\<lparr>rec_ID = ''r1'', rec_Type = ''A'', rec_Name = ''home.example.com'',
                   rec_Content = ''9.9.9.9''\<rparr>]"

text \<open>
  Mock providers after those of the repository's tests (a name, the IP and the errors to
  return, the IP last written), kept in a test bed that also counts the HTTP requests and
  knows whether the service's context has been cancelled. \<open>interrupted p\<close> is \<open>p\<close> with the
  cancellation arriving while its \<open>GetRecordIP\<close> call is in flight.
\<close>

record mockProvider =
  name :: string
  getIP :: string
  updatedIP :: string
  getErr :: "error option"
  updateErr :: "error option"

record testbed =
  mocks :: "mockProvider list"
  cancelled :: bool
  requests :: nat

definition mock_DNSProvider :: "nat \<Rightarrow> testbed DNSProvider" where
  "mock_DNSProvider k =
     \<lparr>GetRecordIP = (\<lambda>w. ((getIP (mocks w ! k), getErr (mocks w ! k)), w)),
      UpdateRecordIP = (\<lambda>ip w. (updateErr (mocks w ! k),
                                 w\<lparr>mocks := (mocks w)[k := (mocks w ! k)\<lparr>updatedIP := ip\<rparr>]\<rparr>)),
      ProviderName = (\<lambda>w. name (mocks w ! k))\<rparr>"

definition interrupted :: "testbed DNSProvider \<Rightarrow> testbed DNSProvider" where
  "interrupted p = p\<lparr>GetRecordIP := (\<lambda>w. case GetRecordIP p w of (res, w') \<Rightarrow> (res, w'\<lparr>cancelled := True\<rparr>))\<rparr>"

definition testbed_Get :: "int \<Rightarrow> string \<Rightarrow> string \<Rightarrow> testbed \<Rightarrow> (error + Response) \<times> testbed" where
  "testbed_Get code body url w = (Inr \<lparr>StatusCode = code, Body = Inr body\<rparr>, w\<lparr>requests := Suc (requests w)\<rparr>)"

definition mock :: "string \<Rightarrow> string \<Rightarrow> error option \<Rightarrow> error option \<Rightarrow> mockProvider" where
  "mock n ip gerr uerr = \<lparr>name = n, getIP = ip, updatedIP = '''', getErr = gerr, updateErr = uerr\<rparr>"

definition bed :: "mockProvider list \<Rightarrow> testbed run" where
  "bed ms = \<lparr>world = \<lparr>mocks = ms, cancelled = False, requests = 0\<rparr>, lastKnown = Map.empty, trace = []\<rparr>"

definition two_mocks :: "testbed run" where
  "two_mocks = bed [mock ''mock1'' ''1.2.3.4'' None None, mock ''mock2'' ''4.3.2.1'' None None]"

definition two_reg :: "testbed DNSProviderRegistry" where
  "two_reg = \<lparr>reg_Providers = [mock_DNSProvider 0, mock_DNSProvider 1]\<rparr>"

text \<open>
  A registry whose first provider is interrupted, and the trace of a test-bed run with
  the state of the context at each action.
\<close>

definition relay_reg :: "testbed DNSProviderRegistry" where
  "relay_reg = \<lparr>reg_Providers = [interrupted (mock_DNSProvider 0), mock_DNSProvider 1]\<rparr>"

definition cancelled_at :: "testbed run \<Rightarrow> (bool \<times> action) list" where
  "cancelled_at st = map (\<lambda>(w, a). (cancelled w, a)) (trace st)"





text \<open>
  A YAML library that knows three documents (and one value it cannot marshal), both
  vendor stubs over one world, and a configuration with the two providers' raw settings.
\<close>

definition stub_yaml :: "string yaml_lib" where
  "stub_yaml =
     \<lparr>Marshal = (\<lambda>raw. if raw = ''<chan>'' then Inl (errors_New ''cannot marshal type: chan int'') else Inr raw),
      Unmarshal_CloudflareConfig = (\<lambda>data out.
         if data = ''enabled: true'' then (None, out\<lparr>cf_Enabled := True\<rparr>)
         else if data = ''enabled: false'' then (None, out\<lparr>cf_Enabled := False\<rparr>)
         else (Some (errors_New ''yaml: unmarshal errors''), out)),
      Unmarshal_Route53Config = (\<lambda>data out.
         if data = ''enabled: true'' then (None, out\<lparr>r53_Enabled := True\<rparr>)
         else if data = ''enabled: false'' then (None, out\<lparr>r53_Enabled := False\<rparr>)
         else (Some (errors_New ''yaml: unmarshal errors''), out))\<rparr>"

definition stub_platform :: "(string, DNSRecord list \<times> ResourceRecordSet list) platform" where
  "stub_platform =
     \<lparr>yaml = stub_yaml,
      cloudflare =
        \<lparr>NewWithAPIToken = NewWithAPIToken stub_cloudflare,
         ListDNSRecords = (\<lambda>client zone params v.
            case ListDNSRecords stub_cloudflare client zone params (fst v) of (res, z) \<Rightarrow> (res, (z, snd v))),
         UpdateDNSRecord = (\<lambda>client zone edit v.
            case UpdateDNSRecord stub_cloudflare client zone edit (fst v) of (err, z) \<Rightarrow> (err, (z, snd v)))\<rparr>,
      aws =
        \<lparr>LoadDefaultConfig = (\<lambda>region keyId secret v. (Inr (aws_Config region keyId secret), v)),
         ListResourceRecordSets = (\<lambda>client input v.
            case ListResourceRecordSets stub_aws client input (snd v) of (res, z) \<Rightarrow> (res, (fst v, z))),
         ChangeResourceRecordSets = (\<lambda>client input v.
            case ChangeResourceRecordSets stub_aws client input (snd v) of (err, z) \<Rightarrow> (err, (fst v, z))),
         EqualFold = EqualFold stub_aws\<rparr>,
      http_client = (\<lambda>url v. (Inr \<lparr>StatusCode = 200, Body = Inr ''1.2.3.4''\<rparr>, v))\<rparr>"

definition sample_Config :: "string \<Rightarrow> string \<Rightarrow> string Config" where
  "sample_Config cf r53 =
     \<lparr>Interval = 300000000000, IPSource = ''https://api.ipify.org'', LogLevel = ''info'',
      Providers = [''cloudflare'' \<mapsto> cf, ''route53'' \<mapsto> r53]\<rparr>"

section \<open>Properties\<close>

subsection \<open>The IP source client\<close>

text \<open>
  C5. When \<open>http.Get\<close> delivers a response with status 200 whose body reads as \<open>B\<close>,
  \<open>GetCurrentIP\<close> returns \<open>(B, nil)\<close>; when the status is anything other than 200 it
  returns the empty string and the error "failed to fetch IP: non-200 response".
\<close>

theorem GetCurrentIP_by_status:
  assumes "http_Get ipSource w = (Inr resp, w')"
  shows "(StatusCode resp = 200 \<and> Body resp = Inr B \<longrightarrow>
            GetCurrentIP http_Get ipSource w = ((B, None), w')) \<and>
         (StatusCode resp \<noteq> 200 \<longrightarrow>
            GetCurrentIP http_Get ipSource w =
              (('''', Some (errors_New ''failed to fetch IP: non-200 response'')), w'))"
  using assms by (simp add: GetCurrentIP_def http_StatusOK_def)

theorem GetCurrentIP_by_status_witness:
  "GetCurrentIP (stub_Get 200 ''1.2.3.4'') ''http://127.0.0.1:8080'' 0 = ((''1.2.3.4'', None), 1) \<and>
   GetCurrentIP (stub_Get 500 ''Internal Server Error'') ''http://127.0.0.1:8080'' 0 =
     (('''', Some (errors_New ''failed to fetch IP: non-200 response'')), 1)"
  using GetCurrentIP_by_status [where http_Get = "stub_Get 200 ''1.2.3.4''" and w = 0
           and ipSource = "''http://127.0.0.1:8080''" and B = "''1.2.3.4''"]
        GetCurrentIP_by_status [where http_Get = "stub_Get 500 ''Internal Server Error''" and w = 0
           and ipSource = "''http://127.0.0.1:8080''" and B = "''Internal Server Error''"]
  by (simp add: stub_Get_def)

subsection \<open>The update pass\<close>

lemma get_results_append: "get_results i (xs @ ys) = get_results i xs @ get_results i ys"
  by (induction i xs rule: get_results.induct) auto

lemma update_args_append: "update_args i (xs @ ys) = update_args i xs @ update_args i ys"
  by (induction i xs rule: update_args.induct) auto

lemma fetches_append: "fetches (xs @ ys) = fetches xs @ fetches ys"
  by (induction xs rule: fetches.induct) auto

lemma acts_emit: "acts (emit a st) = acts st @ [a]"
  by (simp add: acts_def emit_def)

lemma acts_world_update: "acts (st\<lparr>world := w\<rparr>) = acts st"
  by (simp add: acts_def)

lemma acts_lastKnown_update: "acts (st\<lparr>lastKnown := m\<rparr>) = acts st"
  by (simp add: acts_def)

lemma update_provider_gets:
  "get_results j (acts (update_provider X i p st)) =
     get_results j (acts st) @ (if j = i then [fst (GetRecordIP p (world st))] else [])"
  by (auto simp: update_provider_def Let_def acts_emit acts_world_update acts_lastKnown_update
        get_results_append split: prod.splits option.splits)

lemma update_provider_updates:
  "update_args j (acts (update_provider X i p st)) =
     update_args j (acts st) @ (if j = i then need X (fst (GetRecordIP p (world st))) else [])"
  by (auto simp: update_provider_def Let_def acts_emit acts_world_update acts_lastKnown_update
        update_args_append split: prod.splits option.splits)

lemma update_provider_fetches:
  "fetches (acts (update_provider X i p st)) = fetches (acts st)"
  by (auto simp: update_provider_def Let_def acts_emit acts_world_update acts_lastKnown_update
        fetches_append split: prod.splits option.splits)

lemma update_pass_calls:
  "\<exists>R. get_results j (acts (update_pass X i ps st)) = get_results j (acts st) @ R \<and>
       update_args j (acts (update_pass X i ps st)) = update_args j (acts st) @ concat (map (need X) R) \<and>
       length R = (if i \<le> j \<and> j < i + length ps then 1 else 0)"
proof (induction ps arbitrary: i st)
  case Nil
  then show ?case by simp
next
  case (Cons p ps)
  let ?st = "update_provider X i p st"
  obtain R where R: "get_results j (acts (update_pass X (Suc i) ps ?st)) = get_results j (acts ?st) @ R"
      "update_args j (acts (update_pass X (Suc i) ps ?st)) = update_args j (acts ?st) @ concat (map (need X) R)"
      "length R = (if Suc i \<le> j \<and> j < Suc i + length ps then 1 else 0)"
    using Cons.IH [of "Suc i" ?st] by blast
  let ?R1 = "if j = i then [fst (GetRecordIP p (world st))] else []"
  have "get_results j (acts (update_pass X i (p # ps) st)) = get_results j (acts st) @ (?R1 @ R)"
    using R(1) by (simp add: update_provider_gets)
  moreover have "update_args j (acts (update_pass X i (p # ps) st)) =
      update_args j (acts st) @ concat (map (need X) (?R1 @ R))"
    using R(2) by (simp add: update_provider_updates)
  moreover have "length (?R1 @ R) = (if i \<le> j \<and> j < i + length (p # ps) then 1 else 0)"
    using R(3) by auto
  ultimately show ?case by blast
qed

lemma update_pass_fetches: "fetches (acts (update_pass X i ps st)) = fetches (acts st)"
  by (induction ps arbitrary: i st) (simp_all add: update_provider_fetches)

lemma tick_calls:
  "\<exists>r R. fetches (tick_actions g reg src st) = [r] \<and>
         get_results j (tick_actions g reg src st) = R \<and> length R \<le> 1 \<and>
         update_args j (tick_actions g reg src st) =
           (if snd r = None then concat (map (need (fst r)) R) else [])"
proof (cases "GetCurrentIP g src (world st)")
  case (Pair r w1)
  obtain X err where r: "r = (X, err)" by (cases r)
  show ?thesis
  proof (cases err)
    case (Some e)
    then show ?thesis using Pair r
      by (auto simp: tick_actions_def tick_def acts_def emit_def)
  next
    case None
    let ?st1 = "(emit (CallGetCurrentIP src (X, None)) (st\<lparr>trace := []\<rparr>))\<lparr>world := w1\<rparr>"
    obtain R where R: "get_results j (acts (update_pass X 0 (reg_Providers reg) ?st1)) = get_results j (acts ?st1) @ R"
       "update_args j (acts (update_pass X 0 (reg_Providers reg) ?st1)) = update_args j (acts ?st1) @ concat (map (need X) R)"
       "length R = (if 0 \<le> j \<and> j < 0 + length (reg_Providers reg) then 1 else 0)"
      using update_pass_calls [of j X 0 "reg_Providers reg" ?st1] by blast
    have a: "acts ?st1 = [CallGetCurrentIP src (X, None)]"
      by (simp add: acts_def emit_def)
    have t: "tick_actions g reg src st = acts (update_pass X 0 (reg_Providers reg) ?st1)"
      using Pair r None by (simp add: tick_actions_def tick_def)
    have "fetches (tick_actions g reg src st) = [(X, None)]"
      by (simp add: t update_pass_fetches a)
    moreover have "get_results j (tick_actions g reg src st) = R"
      using R(1) by (simp add: t a)
    moreover have "update_args j (tick_actions g reg src st) = concat (map (need X) R)"
      using R(2) by (simp add: t a)
    moreover have "length R \<le> 1" using R(3) by simp
    ultimately show ?thesis by simp
  qed
qed

lemma fetches_mem: "CallGetCurrentIP src r \<in> set as \<Longrightarrow> r \<in> set (fetches as)"
  by (induction as rule: fetches.induct) auto

lemma get_results_mem: "CallGetRecordIP i r \<in> set as \<Longrightarrow> r \<in> set (get_results i as)"
  by (induction i as rule: get_results.induct) auto

text \<open>
  C1. In a tick whose fetch succeeded with the IP \<open>X\<close>, for the provider at any position
  \<open>i\<close> of the registry whose \<open>GetRecordIP\<close> call succeeded with \<open>Y\<close>: the
  \<open>UpdateRecordIP\<close> calls on that provider during the tick are none when \<open>Y = X\<close>, and
  exactly one, with argument \<open>X\<close>, when \<open>Y \<noteq> X\<close>.
\<close>

theorem conditional_update_per_pass:
  assumes "CallGetCurrentIP src (X, None) \<in> set (tick_actions g reg src st)"
      and "CallGetRecordIP i (Y, None) \<in> set (tick_actions g reg src st)"
  shows "update_args i (tick_actions g reg src st) = (if Y = X then [] else [X])"
proof -
  obtain r R where c: "fetches (tick_actions g reg src st) = [r]"
      "get_results i (tick_actions g reg src st) = R" "length R \<le> 1"
      "update_args i (tick_actions g reg src st) = (if snd r = None then concat (map (need (fst r)) R) else [])"
    using tick_calls [of g reg src st i] by blast
  have "r = (X, None)" using fetches_mem [OF assms(1)] c(1) by simp
  moreover have "(Y, None) \<in> set R" using get_results_mem [OF assms(2)] c(2) by simp
  then have "R = [(Y, None)]" using c(3) by (cases R) auto
  ultimately show ?thesis using c(4) by auto
qed

lemma two_mocks_tick:
  "tick_actions (testbed_Get 200 ''1.2.3.4'') two_reg ''src'' two_mocks =
    [CallGetCurrentIP ''src'' (''1.2.3.4'', None),
     CallGetRecordIP 0 (''1.2.3.4'', None),
     Log DebugLevel ''%s: IP unchanged (%s)'' [''mock1'', ''1.2.3.4''],
     CallGetRecordIP 1 (''4.3.2.1'', None),
     Log InfoLevel ''%s: IP mismatch (current: %s, DNS: %s), updating...''
       [''mock2'', ''1.2.3.4'', ''4.3.2.1''],
     CallUpdateRecordIP 1 ''1.2.3.4'' None,
     Log InfoLevel ''%s: DNS record updated to %s'' [''mock2'', ''1.2.3.4'']]"
  by (simp add: tick_actions_def tick_def GetCurrentIP_def testbed_Get_def http_StatusOK_def
        two_reg_def two_mocks_def bed_def mock_def update_provider_def mock_DNSProvider_def
        emit_def acts_def Let_def)

theorem conditional_update_per_pass_witness:
  "update_args 0 (tick_actions (testbed_Get 200 ''1.2.3.4'') two_reg ''src'' two_mocks) = [] \<and>
   update_args 1 (tick_actions (testbed_Get 200 ''1.2.3.4'') two_reg ''src'' two_mocks) = [''1.2.3.4'']"
  using conditional_update_per_pass [of "''src''" "''1.2.3.4''" "testbed_Get 200 ''1.2.3.4''" two_reg two_mocks 0 "''1.2.3.4''"]
        conditional_update_per_pass [of "''src''" "''1.2.3.4''" "testbed_Get 200 ''1.2.3.4''" two_reg two_mocks 1 "''4.3.2.1''"]
  by (simp add: two_mocks_tick)

subsection \<open>Failures within a pass and across ticks\<close>

lemma loop_no_CtxDone:
  "CtxDone \<notin> set schedule \<Longrightarrow> fst (loop g reg src schedule st) = Blocked"
  by (induction g reg src schedule st rule: loop.induct) auto

lemma loop_CtxDone:
  "CtxDone \<in> set schedule \<Longrightarrow>
     loop g reg src schedule st =
       (Returned None,
        emit (Log InfoLevel ''DNSUpdateService stopped'' [])
          (snd (loop g reg src (takeWhile (\<lambda>c. c \<noteq> CtxDone) schedule) st)))"
  by (induction g reg src schedule st rule: loop.induct) auto










subsection \<open>Termination of the loop\<close>

text \<open>
  C7, as the claim has it, fails: cancellation is seen only by the \<open>select\<close>, so when the
  context is cancelled while the first provider's \<open>GetRecordIP\<close> is in flight, the pass goes
  on with the second provider (a \<open>GetRecordIP\<close> and an \<open>UpdateRecordIP\<close> call in a world
  where the context is already cancelled) before the loop returns.
\<close>

theorem cancellation_mid_pass_counterexample:
  "fst (loop (testbed_Get 200 ''1.2.3.4'') relay_reg ''src'' [TickerC, CtxDone] two_mocks) = Returned None \<and>
   cancelled_at (snd (loop (testbed_Get 200 ''1.2.3.4'') relay_reg ''src'' [TickerC, CtxDone] two_mocks)) =
     [(False, CallGetCurrentIP ''src'' (''1.2.3.4'', None)),
      (False, CallGetRecordIP 0 (''1.2.3.4'', None)),
      (True, Log DebugLevel ''%s: IP unchanged (%s)'' [''mock1'', ''1.2.3.4'']),
      (True, CallGetRecordIP 1 (''4.3.2.1'', None)),
      (True, Log InfoLevel ''%s: IP mismatch (current: %s, DNS: %s), updating...''
               [''mock2'', ''1.2.3.4'', ''4.3.2.1'']),
      (True, CallUpdateRecordIP 1 ''1.2.3.4'' None),
      (True, Log InfoLevel ''%s: DNS record updated to %s'' [''mock2'', ''1.2.3.4'']),
      (True, Log InfoLevel ''DNSUpdateService stopped'' [])]"
  by (simp add: cancelled_at_def tick_def GetCurrentIP_def testbed_Get_def http_StatusOK_def
        relay_reg_def two_mocks_def bed_def mock_def update_provider_def mock_DNSProvider_def
        interrupted_def emit_def Let_def)

text \<open>
  C7, amended. The loop returns only when its \<open>select\<close> takes the branch of \<open>ctx.Done()\<close>:
  under a schedule without that branch it is still running, and under a schedule with
  it the loop returns nil, its run being the ticks before that branch followed by the
  log line "DNSUpdateService stopped" and nothing else (no provider call from then on).
\<close>

theorem loop_returns_only_on_CtxDone:
  "(CtxDone \<notin> set schedule \<longrightarrow> fst (loop g reg src schedule st) = Blocked) \<and>
   (CtxDone \<in> set schedule \<longrightarrow>
      loop g reg src schedule st =
        (Returned None,
         emit (Log InfoLevel ''DNSUpdateService stopped'' [])
           (snd (loop g reg src (takeWhile (\<lambda>c. c \<noteq> CtxDone) schedule) st))))"
  using loop_no_CtxDone loop_CtxDone by blast

theorem loop_returns_only_on_CtxDone_witness:
  "fst (loop (testbed_Get 200 ''1.2.3.4'') two_reg ''src'' [TickerC, TickerC] two_mocks) = Blocked \<and>
   loop (testbed_Get 200 ''1.2.3.4'') two_reg ''src'' [TickerC, CtxDone, TickerC] two_mocks =
     (Returned None,
      emit (Log InfoLevel ''DNSUpdateService stopped'' [])
        (tick (testbed_Get 200 ''1.2.3.4'') two_reg ''src'' two_mocks))"
  using loop_returns_only_on_CtxDone [of "[TickerC, TickerC]" "testbed_Get 200 ''1.2.3.4''" two_reg "''src''" two_mocks]
        loop_returns_only_on_CtxDone [of "[TickerC, CtxDone, TickerC]" "testbed_Get 200 ''1.2.3.4''" two_reg "''src''" two_mocks]
  by simp

subsection \<open>Building the registry in Start\<close>

lemma build_providers_list:
  "fst (build_providers env cfg h) =
     (if cloudflare_enabled env cfg then [cloudflare_DNSProvider (cloudflare env)] else []) @
     (if route53_enabled env cfg then [route53_DNSProvider (aws env)] else [])"
  by (auto simp: build_providers_def cloudflare_enabled_def route53_enabled_def Let_def
        split: option.splits prod.splits)

lemma build_providers_none:
  "\<not> cloudflare_enabled env cfg \<Longrightarrow> \<not> route53_enabled env cfg \<Longrightarrow> build_providers env cfg h = ([], h)"
  by (auto simp: build_providers_def cloudflare_enabled_def route53_enabled_def Let_def
        split: option.splits prod.splits)


lemma Start_none_enabled:
  assumes "\<not> cloudflare_enabled env cfg" and "\<not> route53_enabled env cfg"
  shows "Start env (Some cfg) schedule v =
     (Returned (Some (fmt_Errorf ''failed to create DNS provider registry: '' no_providers)),
      emit (Log ErrorLevel ''No DNS providers enabled: %v'' [''no DNS providers enabled in config''])
        (starting v))"
  using build_providers_none [OF assms]
  by (simp add: Start_def NewDNSProviderRegistry_def starting_def no_providers_def)


lemma Start_cong:
  assumes "\<And>h. build_providers env c h = build_providers env c' h"
      and "Interval c = Interval c'" and "IPSource c = IPSource c'"
  shows "Start env (Some c) schedule v = Start env (Some c') schedule v"
proof -
  have e: "build_providers env c = build_providers env c'"
    by (rule ext) (rule assms(1))
  show ?thesis
    unfolding Start_def NewDNSProviderRegistry_def option.case e assms(2) assms(3) by (rule refl)
qed

lemma cloudflare_New_fails:
  "fst (ConfigFromMap (Marshal y) (Unmarshal_CloudflareConfig y) raw CloudflareConfig0) = Some e \<Longrightarrow>
     cloudflare_New y raw = (None, Some e)"
  by (cases "ConfigFromMap (Marshal y) (Unmarshal_CloudflareConfig y) raw CloudflareConfig0")
     (simp add: cloudflare_New_def)

lemma route53_New_fails:
  "fst (ConfigFromMap (Marshal y) (Unmarshal_Route53Config y) raw Route53Config0) = Some e \<Longrightarrow>
     route53_New y raw = (None, Some e)"
  by (cases "ConfigFromMap (Marshal y) (Unmarshal_Route53Config y) raw Route53Config0")
     (simp add: route53_New_def)

lemma build_providers_cloudflare_failed:
  assumes "Providers cfg ''cloudflare'' = Some raw" and "cloudflare_New (yaml env) raw = (None, Some e)"
  shows "build_providers env cfg h =
           build_providers env (cfg\<lparr>Providers := (Providers cfg)(''cloudflare'' := None)\<rparr>) h"
    and "cloudflare_New (yaml env) raw' = (Some cf, None) \<Longrightarrow> \<not> cf_Enabled (cf_Cfg cf) \<Longrightarrow>
         build_providers env cfg h =
           build_providers env (cfg\<lparr>Providers := (Providers cfg)(''cloudflare'' \<mapsto> raw')\<rparr>) h"
    and "\<not> cloudflare_enabled env cfg"
  using assms by (simp_all add: build_providers_def cloudflare_enabled_def)

lemma build_providers_route53_failed:
  assumes "Providers cfg ''route53'' = Some raw" and "route53_New (yaml env) raw = (None, Some e)"
  shows "build_providers env cfg h =
           build_providers env (cfg\<lparr>Providers := (Providers cfg)(''route53'' := None)\<rparr>) h"
    and "route53_New (yaml env) raw' = (Some rp, None) \<Longrightarrow> \<not> r53_Enabled (r53_Cfg rp) \<Longrightarrow>
         build_providers env cfg h =
           build_providers env (cfg\<lparr>Providers := (Providers cfg)(''route53'' \<mapsto> raw')\<rparr>) h"
    and "\<not> route53_enabled env cfg"
  using assms by (simp_all add: build_providers_def route53_enabled_def)

lemma stub_enabled:
  "cloudflare_enabled stub_platform (sample_Config c r) \<longleftrightarrow> c = ''enabled: true''"
  "route53_enabled stub_platform (sample_Config c r) \<longleftrightarrow> r = ''enabled: true''"
  by (simp_all add: stub_platform_def stub_yaml_def sample_Config_def cloudflare_enabled_def
        route53_enabled_def cloudflare_New_def route53_New_def ConfigFromMap_def)

lemma stub_decode:
  "ConfigFromMap (Marshal (yaml stub_platform)) (Unmarshal_CloudflareConfig (yaml stub_platform))
     ''enabled: yes'' c = (Some (errors_New ''yaml: unmarshal errors''), c)"
  "ConfigFromMap (Marshal (yaml stub_platform)) (Unmarshal_Route53Config (yaml stub_platform))
     ''<chan>'' r = (Some (errors_New ''cannot marshal type: chan int''), r)"
  "cloudflare_New (yaml stub_platform) ''enabled: false'' = (Some \<lparr>cf_Cfg = CloudflareConfig0, cf_Client = None\<rparr>, None)"
  "route53_New (yaml stub_platform) ''enabled: false'' = (Some \<lparr>r53_Cfg = Route53Config0, r53_Client = None\<rparr>, None)"
  by (simp_all add: stub_platform_def stub_yaml_def cloudflare_New_def route53_New_def ConfigFromMap_def
        CloudflareConfig0_def Route53Config0_def)

lemma sample_Config_fields:
  "Providers (sample_Config c r) ''cloudflare'' = Some c"
  "Providers (sample_Config c r) ''route53'' = Some r"
  "Interval (sample_Config c r) = 300000000000"
  "(sample_Config c r)\<lparr>Providers := (Providers (sample_Config c r))(''cloudflare'' \<mapsto> c')\<rparr> = sample_Config c' r"
  "(sample_Config c r)\<lparr>Providers := (Providers (sample_Config c r))(''route53'' \<mapsto> r')\<rparr> = sample_Config c r'"
  by (simp_all add: sample_Config_def fun_upd_twist)

text \<open>
  C3. \<open>NewDNSProviderRegistry\<close> returns an error exactly when it is given no provider, and
  the error is "no DNS providers enabled in config". For a configuration that enables no
  provider, the registry construction in \<open>Start\<close> fails so, and \<open>Start\<close> returns that error
  (wrapped by "failed to create DNS provider registry: ") after two log lines, without
  a ticker and without entering the loop, whatever the schedule. For a configuration
  with at least one provider that decodes and is enabled, the construction succeeds.
\<close>

theorem registry_fails_iff_empty:
  "(snd (NewDNSProviderRegistry c ps) \<noteq> None \<longleftrightarrow> ps = []) \<and>
   NewDNSProviderRegistry c [] = (None, Some no_providers) \<and>
   (ps \<noteq> [] \<longrightarrow> NewDNSProviderRegistry c ps = (Some \<lparr>reg_Providers = ps\<rparr>, None)) \<and>
   (\<not> cloudflare_enabled env cfg \<and> \<not> route53_enabled env cfg \<longrightarrow>
      NewDNSProviderRegistry (Some cfg) (fst (build_providers env cfg h)) = (None, Some no_providers) \<and>
      Start env (Some cfg) schedule v =
        (Returned (Some (fmt_Errorf ''failed to create DNS provider registry: '' no_providers)),
         emit (Log ErrorLevel ''No DNS providers enabled: %v'' [''no DNS providers enabled in config''])
           (starting v))) \<and>
   (cloudflare_enabled env cfg \<or> route53_enabled env cfg \<longrightarrow>
      NewDNSProviderRegistry (Some cfg) (fst (build_providers env cfg h)) =
        (Some \<lparr>reg_Providers = fst (build_providers env cfg h)\<rparr>, None))"
  using Start_none_enabled [of env cfg schedule v]
  by (auto simp: NewDNSProviderRegistry_def no_providers_def build_providers_list)

theorem registry_fails_iff_empty_witness:
  "NewDNSProviderRegistry (Some (sample_Config ''enabled: true'' ''enabled: false'')) (reg_Providers two_reg) =
     (Some two_reg, None) \<and>
   Start stub_platform (Some (sample_Config ''enabled: false'' ''enabled: false'')) [TickerC, CtxDone] ([], []) =
     (Returned (Some (fmt_Errorf ''failed to create DNS provider registry: '' no_providers)),
      emit (Log ErrorLevel ''No DNS providers enabled: %v'' [''no DNS providers enabled in config''])
        (starting ([], []))) \<and>
   snd (NewDNSProviderRegistry (Some (sample_Config ''enabled: true'' ''enabled: false''))
       (fst (build_providers stub_platform (sample_Config ''enabled: true'' ''enabled: false'')
               (world (starting ([], [])))))) = None"
proof -
  note t = registry_fails_iff_empty [where c = "Some (sample_Config ''enabled: true'' ''enabled: false'')"
          and ps = "reg_Providers two_reg" and env = stub_platform
          and schedule = "[TickerC, CtxDone]" and v = "([], [])" and h = "world (starting ([], []))"]
  have n: "reg_Providers two_reg \<noteq> []"
    by (simp add: two_reg_def)
  have a: "NewDNSProviderRegistry (Some (sample_Config ''enabled: true'' ''enabled: false'')) (reg_Providers two_reg) =
     (Some two_reg, None)"
    using conjunct1 [OF conjunct2 [OF conjunct2 [OF t [where cfg = "sample_Config ''enabled: false'' ''enabled: false''"]]]] n
    by (simp add: two_reg_def)
  have b: "Start stub_platform (Some (sample_Config ''enabled: false'' ''enabled: false'')) [TickerC, CtxDone] ([], []) =
     (Returned (Some (fmt_Errorf ''failed to create DNS provider registry: '' no_providers)),
      emit (Log ErrorLevel ''No DNS providers enabled: %v'' [''no DNS providers enabled in config''])
        (starting ([], [])))"
    using t [where cfg = "sample_Config ''enabled: false'' ''enabled: false''"] by (auto simp: stub_enabled)
  have c: "snd (NewDNSProviderRegistry (Some (sample_Config ''enabled: true'' ''enabled: false''))
       (fst (build_providers stub_platform (sample_Config ''enabled: true'' ''enabled: false'')
               (world (starting ([], [])))))) = None"
    using t [where cfg = "sample_Config ''enabled: true'' ''enabled: false''"] by (auto simp: stub_enabled)
  show ?thesis using a b c by (intro conjI)
qed



text \<open>
  C8. On a nil configuration \<open>Start\<close> returns nil at once: the trace is empty (no log
  line, no registry, no provider call, no ticker), \<open>lastKnown\<close> is empty and the world is
  untouched, whatever the schedule.
\<close>

theorem Start_nil_config:
  "Start env None schedule v = (Returned None, run0 v) \<and> trace (run0 v) = [] \<and>
   lastKnown (run0 v) = Map.empty \<and> ext (world (run0 v)) = v"
  by (simp add: Start_def run0_def)

text \<open>
  C9. When the raw settings of a provider fail to decode, \<open>New\<close> returns the error and
  \<open>Start\<close> drops it: the provider is not in the list, and \<open>Start\<close> runs exactly as on the
  configuration without that provider's key, and exactly as on a configuration in which
  that provider decodes and is disabled. If the other provider is not enabled either,
  \<open>Start\<close> returns the error "no DNS providers enabled in config" (wrapped).
\<close>

theorem construction_errors_swallowed:
  "(Providers cfg ''cloudflare'' = Some raw \<and>
    fst (ConfigFromMap (Marshal (yaml env)) (Unmarshal_CloudflareConfig (yaml env)) raw CloudflareConfig0) = Some e \<longrightarrow>
      cloudflare_New (yaml env) raw = (None, Some e) \<and>
      fst (build_providers env cfg h) = (if route53_enabled env cfg then [route53_DNSProvider (aws env)] else []) \<and>
      Start env (Some cfg) schedule v =
        Start env (Some (cfg\<lparr>Providers := (Providers cfg)(''cloudflare'' := None)\<rparr>)) schedule v \<and>
      (cloudflare_New (yaml env) raw' = (Some cf, None) \<and> \<not> cf_Enabled (cf_Cfg cf) \<longrightarrow>
         Start env (Some cfg) schedule v =
           Start env (Some (cfg\<lparr>Providers := (Providers cfg)(''cloudflare'' \<mapsto> raw')\<rparr>)) schedule v) \<and>
      (\<not> route53_enabled env cfg \<longrightarrow>
         fst (Start env (Some cfg) schedule v) =
           Returned (Some (fmt_Errorf ''failed to create DNS provider registry: '' no_providers)))) \<and>
   (Providers cfg ''route53'' = Some raw \<and>
    fst (ConfigFromMap (Marshal (yaml env)) (Unmarshal_Route53Config (yaml env)) raw Route53Config0) = Some e \<longrightarrow>
      route53_New (yaml env) raw = (None, Some e) \<and>
      fst (build_providers env cfg h) = (if cloudflare_enabled env cfg then [cloudflare_DNSProvider (cloudflare env)] else []) \<and>
      Start env (Some cfg) schedule v =
        Start env (Some (cfg\<lparr>Providers := (Providers cfg)(''route53'' := None)\<rparr>)) schedule v \<and>
      (route53_New (yaml env) raw' = (Some rp, None) \<and> \<not> r53_Enabled (r53_Cfg rp) \<longrightarrow>
         Start env (Some cfg) schedule v =
           Start env (Some (cfg\<lparr>Providers := (Providers cfg)(''route53'' \<mapsto> raw')\<rparr>)) schedule v) \<and>
      (\<not> cloudflare_enabled env cfg \<longrightarrow>
         fst (Start env (Some cfg) schedule v) =
           Returned (Some (fmt_Errorf ''failed to create DNS provider registry: '' no_providers))))"
proof (intro conjI impI; elim conjE)
  assume p: "Providers cfg ''cloudflare'' = Some raw"
     and d: "fst (ConfigFromMap (Marshal (yaml env)) (Unmarshal_CloudflareConfig (yaml env)) raw CloudflareConfig0) = Some e"
  note n = cloudflare_New_fails [OF d]
  note b = build_providers_cloudflare_failed [OF p n]
  show "cloudflare_New (yaml env) raw = (None, Some e)" by (rule n)
  show "fst (build_providers env cfg h) = (if route53_enabled env cfg then [route53_DNSProvider (aws env)] else [])"
    using b(3) by (simp add: build_providers_list)
  show "Start env (Some cfg) schedule v =
        Start env (Some (cfg\<lparr>Providers := (Providers cfg)(''cloudflare'' := None)\<rparr>)) schedule v"
    by (rule Start_cong) (simp_all add: b(1))
  { assume "cloudflare_New (yaml env) raw' = (Some cf, None)" and "\<not> cf_Enabled (cf_Cfg cf)"
    then show "Start env (Some cfg) schedule v =
           Start env (Some (cfg\<lparr>Providers := (Providers cfg)(''cloudflare'' \<mapsto> raw')\<rparr>)) schedule v"
      by (intro Start_cong) (simp_all add: b(2)) }
  { assume "\<not> route53_enabled env cfg"
    then show "fst (Start env (Some cfg) schedule v) =
           Returned (Some (fmt_Errorf ''failed to create DNS provider registry: '' no_providers))"
      using b(3) by (simp add: Start_none_enabled) }
next
  assume p: "Providers cfg ''route53'' = Some raw"
     and d: "fst (ConfigFromMap (Marshal (yaml env)) (Unmarshal_Route53Config (yaml env)) raw Route53Config0) = Some e"
  note n = route53_New_fails [OF d]
  note b = build_providers_route53_failed [OF p n]
  show "route53_New (yaml env) raw = (None, Some e)" by (rule n)
  show "fst (build_providers env cfg h) = (if cloudflare_enabled env cfg then [cloudflare_DNSProvider (cloudflare env)] else [])"
    using b(3) by (simp add: build_providers_list)
  show "Start env (Some cfg) schedule v =
        Start env (Some (cfg\<lparr>Providers := (Providers cfg)(''route53'' := None)\<rparr>)) schedule v"
    by (rule Start_cong) (simp_all add: b(1))
  { assume "route53_New (yaml env) raw' = (Some rp, None)" and "\<not> r53_Enabled (r53_Cfg rp)"
    then show "Start env (Some cfg) schedule v =
           Start env (Some (cfg\<lparr>Providers := (Providers cfg)(''route53'' \<mapsto> raw')\<rparr>)) schedule v"
      by (intro Start_cong) (simp_all add: b(2)) }
  { assume "\<not> cloudflare_enabled env cfg"
    then show "fst (Start env (Some cfg) schedule v) =
           Returned (Some (fmt_Errorf ''failed to create DNS provider registry: '' no_providers))"
      using b(3) by (simp add: Start_none_enabled) }
qed

theorem construction_errors_swallowed_witness:
  "fst (Start stub_platform (Some (sample_Config ''enabled: yes'' ''enabled: false'')) [TickerC, CtxDone] ([], [])) =
     Returned (Some (fmt_Errorf ''failed to create DNS provider registry: '' no_providers)) \<and>
   Start stub_platform (Some (sample_Config ''enabled: yes'' ''enabled: false'')) [TickerC, CtxDone] ([], []) =
     Start stub_platform (Some (sample_Config ''enabled: false'' ''enabled: false'')) [TickerC, CtxDone] ([], []) \<and>
   fst (Start stub_platform (Some (sample_Config ''enabled: false'' ''<chan>'')) [TickerC, CtxDone] ([], [])) =
     Returned (Some (fmt_Errorf ''failed to create DNS provider registry: '' no_providers)) \<and>
   Start stub_platform (Some (sample_Config ''enabled: true'' ''<chan>'')) [TickerC, CtxDone] ([], []) =
     Start stub_platform (Some (sample_Config ''enabled: true'' ''enabled: false'')) [TickerC, CtxDone] ([], []) \<and>
   fst (build_providers stub_platform (sample_Config ''enabled: true'' ''<chan>'') (world (run0 ([], [])))) =
     [cloudflare_DNSProvider (cloudflare stub_platform)]"
proof -
  note t = construction_errors_swallowed [where env = stub_platform and raw' = "''enabled: false''"
          and cf = "\<lparr>cf_Cfg = CloudflareConfig0, cf_Client = None\<rparr>"
          and rp = "\<lparr>r53_Cfg = Route53Config0, r53_Client = None\<rparr>"
          and schedule = "[TickerC, CtxDone]" and v = "([], [])" and h = "world (run0 ([], []))"]
  note t1 = conjunct1 [OF t [where cfg = "sample_Config ''enabled: yes'' ''enabled: false''"
          and raw = "''enabled: yes''" and e = "errors_New ''yaml: unmarshal errors''"]]
  note t2 = conjunct2 [OF t [where cfg = "sample_Config ''enabled: false'' ''<chan>''"
          and raw = "''<chan>''" and e = "errors_New ''cannot marshal type: chan int''"]]
  note t3 = conjunct2 [OF t [where cfg = "sample_Config ''enabled: true'' ''<chan>''"
          and raw = "''<chan>''" and e = "errors_New ''cannot marshal type: chan int''"]]
  have a: "fst (Start stub_platform (Some (sample_Config ''enabled: yes'' ''enabled: false'')) [TickerC, CtxDone] ([], [])) =
     Returned (Some (fmt_Errorf ''failed to create DNS provider registry: '' no_providers))"
    using t1 by (auto simp: stub_enabled stub_decode sample_Config_fields)
  have b: "Start stub_platform (Some (sample_Config ''enabled: yes'' ''enabled: false'')) [TickerC, CtxDone] ([], []) =
     Start stub_platform (Some (sample_Config ''enabled: false'' ''enabled: false'')) [TickerC, CtxDone] ([], [])"
    using t1 by (auto simp: stub_enabled stub_decode sample_Config_fields CloudflareConfig0_def)
  have c: "fst (Start stub_platform (Some (sample_Config ''enabled: false'' ''<chan>'')) [TickerC, CtxDone] ([], [])) =
     Returned (Some (fmt_Errorf ''failed to create DNS provider registry: '' no_providers))"
    using t2 by (auto simp: stub_enabled stub_decode sample_Config_fields)
  have d: "Start stub_platform (Some (sample_Config ''enabled: true'' ''<chan>'')) [TickerC, CtxDone] ([], []) =
     Start stub_platform (Some (sample_Config ''enabled: true'' ''enabled: false'')) [TickerC, CtxDone] ([], [])"
    using t3 by (auto simp: stub_enabled stub_decode sample_Config_fields Route53Config0_def)
  have e: "fst (build_providers stub_platform (sample_Config ''enabled: true'' ''<chan>'') (world (run0 ([], [])))) =
     [cloudflare_DNSProvider (cloudflare stub_platform)]"
    using t3 by (auto simp: stub_enabled stub_decode sample_Config_fields)
  show ?thesis using a b c d e by (intro conjI)
qed

subsection \<open>The provider adapters\<close>

text \<open>
  C6, as the claim has it, fails for Route53: on a hosted zone that holds no record set
  at all \<open>GetRecordIP\<close> fails with "record not found", and \<open>UpdateRecordIP\<close> returns nil
  (the UPSERT creates the record set).
\<close>

theorem route53_UpdateRecordIP_missing_record_counterexample:
  "fst (route53_GetRecordIP stub_aws sample_r53 []) = ('''', Some (errors_New ''record not found'')) \<and>
   fst (route53_UpdateRecordIP stub_aws sample_r53 ''1.2.3.4'' []) = None"
  by (simp add: route53_GetRecordIP_def route53_UpdateRecordIP_def route53_getClient_def
        stub_aws_def sample_r53_def stub_upsert_def)

text \<open>
  C6, amended. Cloudflare: when the client is there and the listing returns records of
  which none has the configured name and type, \<open>UpdateRecordIP\<close> returns the error
  "record not found for update" without calling \<open>UpdateDNSRecord\<close>, and \<open>GetRecordIP\<close>
  fails on the same listing with "record not found"; an error of the listing is
  returned as it is; with a matching record the result is the result of
  \<open>UpdateDNSRecord\<close>. Route53: \<open>UpdateRecordIP\<close> looks nothing up; it returns the error
  of creating the client, or else whatever \<open>ChangeResourceRecordSets\<close> returns for the
  UPSERT.
\<close>

theorem UpdateRecordIP_failures:
  "(cloudflare_getClient csdk c = (Inr client, c') \<and>
    ListDNSRecords csdk client (cf_ZoneID (cf_Cfg c'))
      \<lparr>lp_Name = cf_RecordName (cf_Cfg c'), lp_Type = cf_RecordType (cf_Cfg c')\<rparr> w = (res, w') \<longrightarrow>
      (case res of
         Inl err \<Rightarrow> cloudflare_UpdateRecordIP csdk c ip w = (Some err, c', w')
       | Inr records \<Rightarrow>
           (case find (cf_matches (cf_Cfg c')) records of
              None \<Rightarrow>
                cloudflare_UpdateRecordIP csdk c ip w =
                  (Some (errors_New ''record not found for update''), c', w') \<and>
                cloudflare_GetRecordIP csdk c w =
                  (('''', Some (errors_New ''record not found'')), c', w')
            | Some record \<Rightarrow>
                fst (cloudflare_UpdateRecordIP csdk c ip w) =
                  fst (UpdateDNSRecord csdk client (cf_ZoneID (cf_Cfg c'))
                         \<lparr>up_ID = rec_ID record, up_Type = cf_RecordType (cf_Cfg c'),
                          up_Name = cf_RecordName (cf_Cfg c'), up_Content = ip,
                          up_Proxied = Some (cf_Proxied (cf_Cfg c'))\<rparr> w')))) \<and>
   (cloudflare_getClient csdk c = (Inl err, c') \<longrightarrow>
      cloudflare_UpdateRecordIP csdk c ip w = (Some err, c', w)) \<and>
   (route53_getClient asdk r v = (Inl err, r', v') \<longrightarrow>
      route53_UpdateRecordIP asdk r ip v = (Some err, r', v')) \<and>
   (route53_getClient asdk r v = (Inr rclient, r', v') \<longrightarrow>
      fst (route53_UpdateRecordIP asdk r ip v) =
        fst (ChangeResourceRecordSets asdk rclient
               \<lparr>ci_HostedZoneId = r53_HostedZoneID (r53_Cfg r'),
                ci_Changes =
                  [\<lparr>ch_Action = ChangeActionUpsert,
                    ch_ResourceRecordSet =
                      \<lparr>rrs_Name = r53_RecordName (r53_Cfg r'), rrs_Type = r53_RecordType (r53_Cfg r'),
                       rrs_TTL = Some 300, rrs_ResourceRecords = [\<lparr>rr_Value = ip\<rparr>]\<rparr>\<rparr>]\<rparr> v'))"
  by (auto simp: cloudflare_UpdateRecordIP_def cloudflare_GetRecordIP_def route53_UpdateRecordIP_def
        Let_def split: sum.splits option.splits prod.splits)

theorem UpdateRecordIP_failures_witness:
  "cloudflare_UpdateRecordIP stub_cloudflare sample_cf ''1.2.3.4'' [] =
     (Some (errors_New ''record not found for update''),
      sample_cf\<lparr>cf_Client := Some (cf_API ''token'')\<rparr>, []) \<and>
   cloudflare_GetRecordIP stub_cloudflare sample_cf [] =
     (('''', Some (errors_New ''record not found'')), sample_cf\<lparr>cf_Client := Some (cf_API ''token'')\<rparr>, []) \<and>
   fst (cloudflare_UpdateRecordIP stub_cloudflare sample_cf ''1.2.3.4'' sample_zone) = None \<and>
   cloudflare_UpdateRecordIP stub_cloudflare sample_cf_no_token ''1.2.3.4'' [] =
     (Some (errors_New ''invalid credentials''), sample_cf_no_token, []) \<and>
   route53_UpdateRecordIP stub_aws_offline sample_r53 ''1.2.3.4'' [] =
     (Some (errors_New ''failed to load config''), sample_r53, []) \<and>
   fst (route53_UpdateRecordIP stub_aws sample_r53 ''1.2.3.4'' []) = None"
  using UpdateRecordIP_failures [where csdk = stub_cloudflare and c = sample_cf and w = "[]"
          and client = "cf_API ''token''" and c' = "sample_cf\<lparr>cf_Client := Some (cf_API ''token'')\<rparr>"
          and res = "Inr []" and w' = "[]" and ip = "''1.2.3.4''"
          and asdk = stub_aws and r = sample_r53 and v = "[]"
          and rclient = "route53_NewFromConfig (aws_Config ''us-east-1'' ''id'' ''secret'')"
          and r' = "sample_r53\<lparr>r53_Client := Some (route53_NewFromConfig (aws_Config ''us-east-1'' ''id'' ''secret''))\<rparr>"
          and v' = "[]"]
        UpdateRecordIP_failures [where csdk = stub_cloudflare and c = sample_cf and w = sample_zone
          and client = "cf_API ''token''" and c' = "sample_cf\<lparr>cf_Client := Some (cf_API ''token'')\<rparr>"
          and res = "Inr sample_zone" and w' = sample_zone and ip = "''1.2.3.4''"
          and asdk = stub_aws and r = sample_r53 and v = "[]"
          and rclient = "route53_NewFromConfig (aws_Config ''us-east-1'' ''id'' ''secret'')"
          and r' = "sample_r53" and v' = "[]"]
        UpdateRecordIP_failures [where csdk = stub_cloudflare and c = sample_cf_no_token and w = "[]"
          and err = "errors_New ''invalid credentials''" and c' = sample_cf_no_token and ip = "''1.2.3.4''"
          and asdk = stub_aws and r = sample_r53 and v = "[]"]
        UpdateRecordIP_failures [where csdk = stub_cloudflare and c = sample_cf and w = "[]"
          and err = "errors_New ''failed to load config''" and c' = sample_cf and ip = "''1.2.3.4''"
          and asdk = stub_aws_offline and r = sample_r53 and v = "[]" and r' = sample_r53 and v' = "[]"]
  by (simp add: cloudflare_getClient_def route53_getClient_def stub_cloudflare_def stub_aws_def
        stub_aws_offline_def sample_cf_def sample_cf_no_token_def sample_r53_def sample_zone_def
        cf_matches_def stub_upsert_def)

subsection \<open>The logger\<close>

text \<open>
  C10. \<open>InitLogger\<close> never fails on the level string: its error is decided by the log
  file path alone (nil for the empty path, otherwise the error of opening the file,
  if any); when it succeeds, a level string that lowers to none of "debug", "info",
  "warn", "error" sets the info level; and with the empty path it succeeds with the
  application writer set to \<open>io.Discard\<close>.
\<close>

theorem InitLogger_level_never_fails:
  "fst (InitLogger os_OpenFile ToLower appLogFile level (g, w)) =
     (if appLogFile = '''' then None
      else (case fst (os_OpenFile appLogFile w) of Inl err \<Rightarrow> Some err | Inr appFile \<Rightarrow> None)) \<and>
   (fst (InitLogger os_OpenFile ToLower appLogFile level (g, w)) = None \<and>
    ToLower level \<notin> {''debug'', ''info'', ''warn'', ''error''} \<longrightarrow>
      logLevel (fst (snd (InitLogger os_OpenFile ToLower appLogFile level (g, w)))) = InfoLevel \<and>
      globalLevel (fst (snd (InitLogger os_OpenFile ToLower appLogFile level (g, w)))) = InfoLevel) \<and>
   (appLogFile = '''' \<longrightarrow>
      fst (InitLogger os_OpenFile ToLower appLogFile level (g, w)) = None \<and>
      appWriter (fst (snd (InitLogger os_OpenFile ToLower appLogFile level (g, w)))) = Discard \<and>
      logger_out (fst (snd (InitLogger os_OpenFile ToLower appLogFile level (g, w)))) =
        MultiWriter [Discard, ConsoleWriter] \<and>
      snd (snd (InitLogger os_OpenFile ToLower appLogFile level (g, w))) = w)"
  by (cases "os_OpenFile appLogFile w"; cases "fst (os_OpenFile appLogFile w)")
     (simp_all add: InitLogger_def Let_def level_of_def)

theorem InitLogger_level_never_fails_witness:
  "fst (InitLogger stub_OpenFile ascii_lower '''' ''Verbose'' (logger_vars0, [])) = None \<and>
   logLevel (fst (snd (InitLogger stub_OpenFile ascii_lower '''' ''Verbose'' (logger_vars0, [])))) = InfoLevel \<and>
   appWriter (fst (snd (InitLogger stub_OpenFile ascii_lower '''' ''Verbose'' (logger_vars0, [])))) = Discard \<and>
   fst (InitLogger stub_OpenFile ascii_lower ''/proc/nope'' ''Verbose'' (logger_vars0, [])) =
     Some (errors_New ''open /proc/nope: permission denied'')"
proof -
  have l: "ascii_lower ''Verbose'' \<notin> {''debug'', ''info'', ''warn'', ''error''}"
    by (simp add: ascii_lower_def)
  show ?thesis
    using InitLogger_level_never_fails [of stub_OpenFile ascii_lower "''''" "''Verbose''" logger_vars0 "[]"]
          InitLogger_level_never_fails [of stub_OpenFile ascii_lower "''/proc/nope''" "''Verbose''" logger_vars0 "[]"]
          l
    by (simp add: stub_OpenFile_def)
qed

end
